theory Spec2Isabelle
  imports Main
begin

section \<open>The environment of horovod/tensorflow/elastic.py\<close>

text \<open>
  The module manipulates objects it does not own: TensorFlow variables, sessions, Keras
  models and optimizers, and the collective operations of \<open>horovod.tensorflow\<close>. They are
  represented by a \<open>world\<close> that every function of the module takes and returns. Besides
  the live values, the world keeps a \<open>trace\<close> of the external calls in the order they
  were issued, so that statements about which primitive was used, with which arguments
  and in which order, are statements about the trace.
\<close>

text \<open>
  Variables and sessions are identified by numbers. The module only copies the values
  of variables, so an array is represented by the list of its entries.
\<close>

type_synonym var = nat
type_synonym session = nat
type_synonym ndarray = "int list"
type_synonym kwargs = "(string \<times> int) list"

text \<open>The deferred operation returned by a broadcast in graph mode.\<close>

datatype bcast_op = BroadcastOp "var list" nat

datatype error =
    ValueError_ModelMustBeBuilt
  | ValueError_WeightListLength
  | AttributeError_NoneType

datatype event =
    EvNumpy var
  | EvEval var "session option"
  | EvAssign var ndarray
  | EvLoad var ndarray "session option"
  | EvGetWeights "var list"
  | EvSetWeights "var list" "ndarray list"
  | EvBroadcastVariables "var list" nat
  | EvBroadcastGlobalVariables nat
  | EvSessionRun session bcast_op
  | EvBroadcastObject kwargs
  | EvObjectInit kwargs
  | EvObjectSave
  | EvObjectRestore
  | EvObjectSync

record world =
  IS_TF2 :: bool
  executing_eagerly :: bool
  tf_global_collection :: "var list"
  tf_default_session :: "session option"
  live :: "var \<Rightarrow> ndarray"
  rank :: nat
  rank_live :: "nat \<Rightarrow> var \<Rightarrow> ndarray"
  rank_object :: "nat \<Rightarrow> kwargs"
  trace :: "event list"

definition emit :: "event \<Rightarrow> world \<Rightarrow> world" where
  "emit e w = w\<lparr>trace := trace w @ [e]\<rparr>"

definition write_var :: "var \<Rightarrow> ndarray \<Rightarrow> world \<Rightarrow> world" where
  "write_var v x w = w\<lparr>live := (live w)(v := x)\<rparr>"

subsection \<open>TensorFlow primitives\<close>

text \<open>
  Modelled from the spec: the single-value primitives of TensorFlow, which is not part
  of the repository. Section 6 lists \<open>numpy()\<close> and \<open>eval(session)\<close> as single-value
  reads and \<open>assign(value)\<close> and \<open>load(value, session)\<close> as single-value writes of a
  variable; each is recorded in the trace with its arguments.
\<close>

definition var_numpy :: "var \<Rightarrow> world \<Rightarrow> ndarray \<times> world" where
  "var_numpy v w = (live w v, emit (EvNumpy v) w)"

definition var_eval :: "var \<Rightarrow> session option \<Rightarrow> world \<Rightarrow> ndarray \<times> world" where
  "var_eval v s w = (live w v, emit (EvEval v s) w)"

definition var_assign :: "var \<Rightarrow> ndarray \<Rightarrow> world \<Rightarrow> world" where
  "var_assign v x w = write_var v x (emit (EvAssign v x) w)"

definition var_load :: "var \<Rightarrow> ndarray \<Rightarrow> session option \<Rightarrow> world \<Rightarrow> world" where
  "var_load v x s w = write_var v x (emit (EvLoad v x s) w)"

text \<open>
  Modelled from the spec: the global variable collection accessor of section 6. Both
  spellings read the same collection and return its current content as a list of
  their own.
\<close>

definition tf_global_variables :: "world \<Rightarrow> var list" where
  "tf_global_variables w = tf_global_collection w"

definition tf_compat_v1_global_variables :: "world \<Rightarrow> var list" where
  "tf_compat_v1_global_variables w = tf_global_collection w"

definition ops_get_default_session :: "world \<Rightarrow> session option" where
  "ops_get_default_session w = tf_default_session w"

subsection \<open>Keras objects\<close>

text \<open>
  Modelled from the spec: a Keras optimizer and model as far as the module touches
  them. \<open>get_weights()\<close> and \<open>set_weights()\<close> are the bulk, object-level export and
  import of section 6 over the object's variables; \<open>set_weights\<close> refuses a list of
  the wrong length before writing anything. \<open>has_build\<close> is \<open>hasattr(model, 'build')\<close>;
  every model is taken to carry a \<open>built\<close> flag and an \<open>optimizer\<close> attribute, which
  may be \<open>None\<close>. \<open>model.variables\<close> and \<open>optimizer.variables()\<close> are the variables
  behind the exported weights.
\<close>

datatype keras_optimizer = Optimizer (optimizer_weights: "var list")

datatype keras_backend = Backend (get_session: session)

record keras_model =
  has_build :: bool
  built :: bool
  model_weights :: "var list"
  model_optimizer :: "keras_optimizer option"

definition model_variables :: "keras_model \<Rightarrow> var list" where
  "model_variables m = model_weights m"

definition optimizer_variables :: "keras_optimizer \<Rightarrow> var list" where
  "optimizer_variables opt = optimizer_weights opt"

definition get_weights :: "var list \<Rightarrow> world \<Rightarrow> ndarray list \<times> world" where
  "get_weights vs w = (map (live w) vs, emit (EvGetWeights vs) w)"

fun write_all :: "(var \<times> ndarray) list \<Rightarrow> world \<Rightarrow> world" where
  "write_all [] w = w"
| "write_all ((v, x) # ps) w = write_all ps (write_var v x w)"

definition set_weights :: "var list \<Rightarrow> ndarray list \<Rightarrow> world \<Rightarrow> error option \<times> world" where
  "set_weights vs xs w =
     (let w1 = emit (EvSetWeights vs xs) w
      in if length vs \<noteq> length xs then (Some ValueError_WeightListLength, w1)
         else (None, write_all (zip vs xs) w1))"

subsection \<open>Collective operations of horovod.tensorflow\<close>

text \<open>
  Modelled from the spec: the functions of \<open>horovod.tensorflow\<close> the module calls,
  whose code is not among the sources. A collective broadcast leaves every rank with
  the root's values (glossary); \<open>rank_live w r\<close> are the live values of rank \<open>r\<close> when
  the collective runs. Executed eagerly the broadcast updates the live values in place,
  otherwise it only constructs a deferred operation that an execution context has to
  run (section 6).
\<close>

definition hvd_executing_eagerly :: "world \<Rightarrow> bool" where
  "hvd_executing_eagerly w = executing_eagerly w"

definition receive_broadcast :: "var list \<Rightarrow> nat \<Rightarrow> world \<Rightarrow> world" where
  "receive_broadcast vars root_rank w =
     (if rank w = root_rank then w
      else w\<lparr>live := (\<lambda>v. if v \<in> set vars then rank_live w root_rank v else live w v)\<rparr>)"

definition hvd_broadcast_variables :: "var list \<Rightarrow> nat \<Rightarrow> world \<Rightarrow> bcast_op \<times> world" where
  "hvd_broadcast_variables vars root_rank w =
     (let w1 = emit (EvBroadcastVariables vars root_rank) w
      in (BroadcastOp vars root_rank,
          if executing_eagerly w then receive_broadcast vars root_rank w1 else w1))"

definition hvd_broadcast_global_variables :: "nat \<Rightarrow> world \<Rightarrow> bcast_op \<times> world" where
  "hvd_broadcast_global_variables root_rank w =
     (BroadcastOp (tf_global_collection w) root_rank,
      emit (EvBroadcastGlobalVariables root_rank) w)"

fun session_run :: "session \<Rightarrow> bcast_op \<Rightarrow> world \<Rightarrow> world" where
  "session_run s (BroadcastOp vars root_rank) w =
     receive_broadcast vars root_rank (emit (EvSessionRun s (BroadcastOp vars root_rank)) w)"

definition hvd_broadcast_object :: "kwargs \<Rightarrow> world \<Rightarrow> kwargs \<times> world" where
  "hvd_broadcast_object obj w =
     (if rank w = 0 then obj else rank_object w 0, emit (EvBroadcastObject obj) w)"

subsection \<open>The shared base class\<close>

text \<open>
  Modelled from the spec: \<open>ObjectState\<close> of \<open>horovod.common.elastic\<close>, whose code is not
  among the sources. By sections 3 and 4.4 it holds the attributes the user registered
  by name at construction and their last committed copy, captures them on \<open>save\<close>,
  reapplies them on \<open>restore\<close>, and on \<open>sync\<close> replicates them through the generic
  object-broadcast primitive. The registered attributes are kept apart from the fields
  of the subclasses.
\<close>

record ObjectState =
  saved_state :: kwargs
  attrs :: kwargs

definition ObjectState_init ::
  "kwargs \<Rightarrow> 'a ObjectState_scheme \<Rightarrow> world \<Rightarrow> 'a ObjectState_scheme \<times> world" where
  "ObjectState_init kw self w =
     (self\<lparr>saved_state := kw, attrs := kw\<rparr>, emit (EvObjectInit kw) w)"

definition ObjectState_save ::
  "'a ObjectState_scheme \<Rightarrow> world \<Rightarrow> 'a ObjectState_scheme \<times> world" where
  "ObjectState_save self w = (self\<lparr>saved_state := attrs self\<rparr>, emit EvObjectSave w)"

definition ObjectState_restore ::
  "'a ObjectState_scheme \<Rightarrow> world \<Rightarrow> 'a ObjectState_scheme \<times> world" where
  "ObjectState_restore self w = (self\<lparr>attrs := saved_state self\<rparr>, emit EvObjectRestore w)"

definition ObjectState_sync ::
  "'a ObjectState_scheme \<Rightarrow> world \<Rightarrow> 'a ObjectState_scheme \<times> world" where
  "ObjectState_sync self w =
     (let (obj, w1) = hvd_broadcast_object (saved_state self) (emit EvObjectSync w)
      in (self\<lparr>saved_state := obj, attrs := obj\<rparr>, w1))"

section \<open>Module-level functions\<close>

definition broadcast_model ::
  "keras_model \<Rightarrow> keras_optimizer option \<Rightarrow> keras_backend option \<Rightarrow> world
     \<Rightarrow> error option \<times> world" where
  "broadcast_model model optimizer backend w =
     (if hvd_executing_eagerly w then
        (let (u1, w1) = hvd_broadcast_variables (model_variables model) 0 w
         in case optimizer of
              None \<Rightarrow> (Some AttributeError_NoneType, w1)
            | Some opt \<Rightarrow>
                (let (u2, w2) = hvd_broadcast_variables (optimizer_variables opt) 0 w1
                 in (None, w2)))
      else
        (let (bcast_op, w1) = hvd_broadcast_global_variables 0 w
         in case backend of
              None \<Rightarrow> (Some AttributeError_NoneType, w1)
            | Some b \<Rightarrow> (None, session_run (get_session b) bcast_op w1)))"

definition model_built :: "keras_model \<Rightarrow> bool" where
  "model_built model = (if has_build model then built model else True)"

definition global_variables :: "world \<Rightarrow> var list" where
  "global_variables w =
     (if \<not> IS_TF2 w then tf_global_variables w else tf_compat_v1_global_variables w)"

definition default_session :: "world \<Rightarrow> session option" where
  "default_session w = (if \<not> IS_TF2 w then ops_get_default_session w else None)"

section \<open>TensorFlowKerasState\<close>

record TensorFlowKerasState = ObjectState +
  model :: keras_model
  optimizer :: "keras_optimizer option"
  backend :: "keras_backend option"
  saved_model_state :: "ndarray list"
  saved_optimizer_state :: "ndarray list"

definition TensorFlowKerasState_save_model ::
  "TensorFlowKerasState \<Rightarrow> world \<Rightarrow> error option \<times> TensorFlowKerasState \<times> world" where
  "TensorFlowKerasState_save_model self w =
     (let (mw, w1) = get_weights (model_weights (model self)) w;
          self1 = self\<lparr>saved_model_state := mw\<rparr>
      in case optimizer self1 of
           None \<Rightarrow> (Some AttributeError_NoneType, self1, w1)
         | Some opt \<Rightarrow>
             (let (ow, w2) = get_weights (optimizer_weights opt) w1
              in (None, self1\<lparr>saved_optimizer_state := ow\<rparr>, w2)))"

definition TensorFlowKerasState_load_model ::
  "TensorFlowKerasState \<Rightarrow> world \<Rightarrow> error option \<times> TensorFlowKerasState \<times> world" where
  "TensorFlowKerasState_load_model self w =
     (case set_weights (model_weights (model self)) (saved_model_state self) w of
        (Some e, w1) \<Rightarrow> (Some e, self, w1)
      | (None, w1) \<Rightarrow>
          (case optimizer self of
             None \<Rightarrow> (Some AttributeError_NoneType, self, w1)
           | Some opt \<Rightarrow>
               (case set_weights (optimizer_weights opt) (saved_optimizer_state self) w1 of
                  (e, w2) \<Rightarrow> (e, self, w2))))"

definition TensorFlowKerasState_init ::
  "keras_model \<Rightarrow> keras_optimizer option \<Rightarrow> keras_backend option \<Rightarrow> kwargs \<Rightarrow> world
     \<Rightarrow> (error + TensorFlowKerasState) \<times> world" where
  "TensorFlowKerasState_init model0 optimizer0 backend0 kw w =
     (if \<not> model_built model0 then (Inl ValueError_ModelMustBeBuilt, w)
      else
        (let self = \<lparr>saved_state = [], attrs = [],
                     model = model0,
                     optimizer = (case optimizer0 of
                                    Some opt \<Rightarrow> Some opt
                                  | None \<Rightarrow> model_optimizer model0),
                     backend = backend0,
                     saved_model_state = [], saved_optimizer_state = []\<rparr>
         in case TensorFlowKerasState_save_model self w of
              (Some e, self1, w1) \<Rightarrow> (Inl e, w1)
            | (None, self1, w1) \<Rightarrow>
                (let (self2, w2) = ObjectState_init kw self1 w1 in (Inr self2, w2))))"

definition TensorFlowKerasState_save ::
  "TensorFlowKerasState \<Rightarrow> world \<Rightarrow> error option \<times> TensorFlowKerasState \<times> world" where
  "TensorFlowKerasState_save self w =
     (case TensorFlowKerasState_save_model self w of
        (Some e, self1, w1) \<Rightarrow> (Some e, self1, w1)
      | (None, self1, w1) \<Rightarrow>
          (let (self2, w2) = ObjectState_save self1 w1 in (None, self2, w2)))"

definition TensorFlowKerasState_restore ::
  "TensorFlowKerasState \<Rightarrow> world \<Rightarrow> error option \<times> TensorFlowKerasState \<times> world" where
  "TensorFlowKerasState_restore self w =
     (case TensorFlowKerasState_load_model self w of
        (Some e, self1, w1) \<Rightarrow> (Some e, self1, w1)
      | (None, self1, w1) \<Rightarrow>
          (let (self2, w2) = ObjectState_restore self1 w1 in (None, self2, w2)))"

definition TensorFlowKerasState_sync ::
  "TensorFlowKerasState \<Rightarrow> world \<Rightarrow> error option \<times> TensorFlowKerasState \<times> world" where
  "TensorFlowKerasState_sync self w =
     (case broadcast_model (model self) (optimizer self) (backend self) w of
        (Some e, w1) \<Rightarrow> (Some e, self, w1)
      | (None, w1) \<Rightarrow>
          (case TensorFlowKerasState_save_model self w1 of
             (Some e, self2, w2) \<Rightarrow> (Some e, self2, w2)
           | (None, self2, w2) \<Rightarrow>
               (let (self3, w3) = ObjectState_sync self2 w2 in (None, self3, w3))))"

section \<open>TensorFlowState\<close>

text \<open>
  \<open>_eval_fn\<close> and \<open>_assign_fn\<close> hold bound methods chosen in the constructor; the two
  datatypes name the method that was stored.
\<close>

datatype eval_method = To_numpy | Eval_var

datatype assign_method = Assign_var | Load_var

record TensorFlowState = ObjectState +
  variables :: "var list"
  session :: "session option"
  eval_fn :: eval_method
  assign_fn :: assign_method
  saved_values :: "ndarray list"

definition TensorFlowState_eval_var ::
  "TensorFlowState \<Rightarrow> var \<Rightarrow> world \<Rightarrow> ndarray \<times> world" where
  "TensorFlowState_eval_var self v w = var_eval v (session self) w"

definition TensorFlowState_to_numpy ::
  "TensorFlowState \<Rightarrow> var \<Rightarrow> world \<Rightarrow> ndarray \<times> world" where
  "TensorFlowState_to_numpy self v w = var_numpy v w"

definition TensorFlowState_load_var ::
  "TensorFlowState \<Rightarrow> var \<Rightarrow> ndarray \<Rightarrow> world \<Rightarrow> world" where
  "TensorFlowState_load_var self v x w = var_load v x (session self) w"

definition TensorFlowState_assign_var ::
  "TensorFlowState \<Rightarrow> var \<Rightarrow> ndarray \<Rightarrow> world \<Rightarrow> world" where
  "TensorFlowState_assign_var self v x w = var_assign v x w"

definition call_eval_fn :: "TensorFlowState \<Rightarrow> var \<Rightarrow> world \<Rightarrow> ndarray \<times> world" where
  "call_eval_fn self v w =
     (case eval_fn self of
        To_numpy \<Rightarrow> TensorFlowState_to_numpy self v w
      | Eval_var \<Rightarrow> TensorFlowState_eval_var self v w)"

definition call_assign_fn :: "TensorFlowState \<Rightarrow> var \<Rightarrow> ndarray \<Rightarrow> world \<Rightarrow> world" where
  "call_assign_fn self v x w =
     (case assign_fn self of
        Assign_var \<Rightarrow> TensorFlowState_assign_var self v x w
      | Load_var \<Rightarrow> TensorFlowState_load_var self v x w)"

text \<open>The list comprehension of \<open>_save_model\<close>: one read per variable, in order.\<close>

fun eval_each :: "TensorFlowState \<Rightarrow> var list \<Rightarrow> world \<Rightarrow> ndarray list \<times> world" where
  "eval_each self [] w = ([], w)"
| "eval_each self (v # vs) w =
     (let (x, w1) = call_eval_fn self v w;
          (xs, w2) = eval_each self vs w1
      in (x # xs, w2))"

definition TensorFlowState_save_model ::
  "TensorFlowState \<Rightarrow> world \<Rightarrow> TensorFlowState \<times> world" where
  "TensorFlowState_save_model self w =
     (let (xs, w1) = eval_each self (variables self) w
      in (self\<lparr>saved_values := xs\<rparr>, w1))"

text \<open>The loop of \<open>_load_model\<close> over the zipped pairs.\<close>

fun assign_each :: "TensorFlowState \<Rightarrow> (var \<times> ndarray) list \<Rightarrow> world \<Rightarrow> world" where
  "assign_each self [] w = w"
| "assign_each self ((v, x) # ps) w = assign_each self ps (call_assign_fn self v x w)"

definition TensorFlowState_load_model ::
  "TensorFlowState \<Rightarrow> world \<Rightarrow> TensorFlowState \<times> world" where
  "TensorFlowState_load_model self w =
     (self, assign_each self (zip (variables self) (saved_values self)) w)"

definition TensorFlowState_init ::
  "var list option \<Rightarrow> session option \<Rightarrow> kwargs \<Rightarrow> world \<Rightarrow> TensorFlowState \<times> world" where
  "TensorFlowState_init variables0 session0 kw w =
     (let self = \<lparr>saved_state = [], attrs = [],
                  variables = (case variables0 of
                                 Some (v # vs) \<Rightarrow> v # vs
                               | _ \<Rightarrow> global_variables w),
                  session = (case session0 of
                               Some s \<Rightarrow> Some s
                             | None \<Rightarrow> default_session w),
                  eval_fn = (if hvd_executing_eagerly w then To_numpy else Eval_var),
                  assign_fn = (if IS_TF2 w then Assign_var else Load_var),
                  saved_values = []\<rparr>;
          (self1, w1) = TensorFlowState_save_model self w
      in ObjectState_init kw self1 w1)"

definition TensorFlowState_save ::
  "TensorFlowState \<Rightarrow> world \<Rightarrow> TensorFlowState \<times> world" where
  "TensorFlowState_save self w =
     (let (self1, w1) = TensorFlowState_save_model self w
      in ObjectState_save self1 w1)"

definition TensorFlowState_restore ::
  "TensorFlowState \<Rightarrow> world \<Rightarrow> TensorFlowState \<times> world" where
  "TensorFlowState_restore self w =
     (let (self1, w1) = TensorFlowState_load_model self w
      in ObjectState_restore self1 w1)"

definition TensorFlowState_sync ::
  "TensorFlowState \<Rightarrow> world \<Rightarrow> TensorFlowState \<times> world" where
  "TensorFlowState_sync self w =
     (let (bcast_op, w1) = hvd_broadcast_variables (variables self) 0 w;
          w2 = (case session self of
                  Some s \<Rightarrow> session_run s bcast_op w1
                | None \<Rightarrow> w1);
          (self1, w3) = TensorFlowState_save_model self w2
      in ObjectState_sync self1 w3)"

section \<open>The State interface\<close>

text \<open>
  The elastic driver holds a state object of either class and calls \<open>save()\<close>,
  \<open>restore()\<close> and \<open>sync()\<close> on it; Python dispatches on the class of the receiver.
  A method of \<open>TensorFlowState\<close> has no raising branch of its own, so it reports no error.
\<close>

datatype state = Keras TensorFlowKerasState | Raw TensorFlowState

fun State_save :: "state \<Rightarrow> world \<Rightarrow> error option \<times> state \<times> world" where
  "State_save (Keras self) w =
     (let (e, self1, w1) = TensorFlowKerasState_save self w in (e, Keras self1, w1))"
| "State_save (Raw self) w =
     (let (self1, w1) = TensorFlowState_save self w in (None, Raw self1, w1))"

fun State_restore :: "state \<Rightarrow> world \<Rightarrow> error option \<times> state \<times> world" where
  "State_restore (Keras self) w =
     (let (e, self1, w1) = TensorFlowKerasState_restore self w in (e, Keras self1, w1))"
| "State_restore (Raw self) w =
     (let (self1, w1) = TensorFlowState_restore self w in (None, Raw self1, w1))"

fun State_sync :: "state \<Rightarrow> world \<Rightarrow> error option \<times> state \<times> world" where
  "State_sync (Keras self) w =
     (let (e, self1, w1) = TensorFlowKerasState_sync self w in (e, Keras self1, w1))"
| "State_sync (Raw self) w =
     (let (self1, w1) = TensorFlowState_sync self w in (None, Raw self1, w1))"

text \<open>The value holders a state tracks, and the snapshot it holds for them, in order.\<close>

fun tracked :: "state \<Rightarrow> var list" where
  "tracked (Keras self) =
     model_weights (model self) @
     (case optimizer self of None \<Rightarrow> [] | Some opt \<Rightarrow> optimizer_weights opt)"
| "tracked (Raw self) = variables self"

fun snapshot :: "state \<Rightarrow> ndarray list" where
  "snapshot (Keras self) = saved_model_state self @ saved_optimizer_state self"
| "snapshot (Raw self) = saved_values self"

text \<open>The attributes the user registered, as last committed by the base class.\<close>

fun registered :: "state \<Rightarrow> kwargs" where
  "registered (Keras self) = saved_state self"
| "registered (Raw self) = saved_state self"

section \<open>Reading the trace\<close>

text \<open>The events of the shared base class, as opposed to the tensor-state events.\<close>

fun is_base_event :: "event \<Rightarrow> bool" where
  "is_base_event (EvBroadcastObject obj) = True"
| "is_base_event (EvObjectInit kw) = True"
| "is_base_event EvObjectSave = True"
| "is_base_event EvObjectRestore = True"
| "is_base_event EvObjectSync = True"
| "is_base_event e = False"


text \<open>The variables an event reads, writes or broadcasts by name.\<close>

fun event_vars :: "event \<Rightarrow> var list" where
  "event_vars (EvNumpy v) = [v]"
| "event_vars (EvEval v s) = [v]"
| "event_vars (EvAssign v x) = [v]"
| "event_vars (EvLoad v x s) = [v]"
| "event_vars (EvGetWeights vs) = vs"
| "event_vars (EvSetWeights vs xs) = vs"
| "event_vars (EvBroadcastVariables vs r) = vs"
| "event_vars (EvSessionRun s (BroadcastOp vs r)) = vs"
| "event_vars e = []"

text \<open>The events since a world \<open>w\<close>, in a later world \<open>w'\<close>.\<close>

definition events_since :: "world \<Rightarrow> world \<Rightarrow> event list" where
  "events_since w w' = drop (length (trace w)) (trace w')"

text \<open>The event of one read through \<open>_eval_fn\<close> and of one write through \<open>_assign_fn\<close>.\<close>

definition read_event :: "eval_method \<Rightarrow> session option \<Rightarrow> var \<Rightarrow> event" where
  "read_event m s v = (case m of To_numpy \<Rightarrow> EvNumpy v | Eval_var \<Rightarrow> EvEval v s)"

definition write_event :: "assign_method \<Rightarrow> session option \<Rightarrow> var \<times> ndarray \<Rightarrow> event" where
  "write_event m s p =
     (case m of Assign_var \<Rightarrow> EvAssign (fst p) (snd p) | Load_var \<Rightarrow> EvLoad (fst p) (snd p) s)"

text \<open>The (variable, value) pairs an event writes, in the order it writes them.\<close>

fun written :: "event \<Rightarrow> (var \<times> ndarray) list" where
  "written (EvAssign v x) = [(v, x)]"
| "written (EvLoad v x s) = [(v, x)]"
| "written (EvSetWeights vs xs) = zip vs xs"
| "written e = []"

text \<open>
  The tensor-state calls each operation has to issue before it reaches the base class,
  written down from the description of the operations: the capture reads the weights
  of the model and of the optimizer, or every tracked variable through the read
  strategy; the restoration writes the stored weights to the model and to the
  optimizer, or every (variable, stored value) pair through the write strategy; the
  broadcast covers the model's and the optimizer's variables when executing eagerly
  and the global variables through the backend's session otherwise, or the tracked
  variables, run through the session when there is one. A call that raises ends the
  list: a missing optimizer or backend, or a stored list of the wrong length.
\<close>

fun capture_calls :: "state \<Rightarrow> event list" where
  "capture_calls (Keras self) =
     EvGetWeights (model_weights (model self))
     # (case optimizer self of
          None \<Rightarrow> []
        | Some opt \<Rightarrow> [EvGetWeights (optimizer_weights opt)])"
| "capture_calls (Raw self) =
     map (read_event (eval_fn self) (session self)) (variables self)"

fun apply_calls :: "state \<Rightarrow> event list" where
  "apply_calls (Keras self) =
     EvSetWeights (model_weights (model self)) (saved_model_state self)
     # (if length (model_weights (model self)) \<noteq> length (saved_model_state self) then []
        else case optimizer self of
               None \<Rightarrow> []
             | Some opt \<Rightarrow> [EvSetWeights (optimizer_weights opt) (saved_optimizer_state self)])"
| "apply_calls (Raw self) =
     map (write_event (assign_fn self) (session self))
       (zip (variables self) (saved_values self))"

fun broadcast_calls :: "state \<Rightarrow> world \<Rightarrow> event list" where
  "broadcast_calls (Keras self) w =
     (if executing_eagerly w then
        EvBroadcastVariables (model_weights (model self)) 0
        # (case optimizer self of
             None \<Rightarrow> []
           | Some opt \<Rightarrow> [EvBroadcastVariables (optimizer_weights opt) 0])
      else
        EvBroadcastGlobalVariables 0
        # (case backend self of
             None \<Rightarrow> []
           | Some b \<Rightarrow> [EvSessionRun (get_session b) (BroadcastOp (tf_global_collection w) 0)]))"
| "broadcast_calls (Raw self) w =
     EvBroadcastVariables (variables self) 0
     # (case session self of
          None \<Rightarrow> []
        | Some s \<Rightarrow> [EvSessionRun s (BroadcastOp (variables self) 0)])"

text \<open>Whether the broadcast step of \<open>sync()\<close> returns, so that the capture is reached.\<close>

fun broadcast_returns :: "state \<Rightarrow> world \<Rightarrow> bool" where
  "broadcast_returns (Keras self) w =
     (if executing_eagerly w then optimizer self \<noteq> None else backend self \<noteq> None)"
| "broadcast_returns (Raw self) w = True"

section \<open>Calls after construction\<close>

text \<open>
  What can happen to a \<open>TensorFlowState\<close> after it was built: the driver calls one of
  its three operations, or the program creates a variable, which joins the global
  collection.
\<close>

datatype call = CallSave | CallRestore | CallSync | CreateVariable var ndarray

fun run_call :: "call \<Rightarrow> TensorFlowState \<Rightarrow> world \<Rightarrow> TensorFlowState \<times> world" where
  "run_call CallSave self w = TensorFlowState_save self w"
| "run_call CallRestore self w = TensorFlowState_restore self w"
| "run_call CallSync self w = TensorFlowState_sync self w"
| "run_call (CreateVariable v x) self w =
     (self, w\<lparr>tf_global_collection := tf_global_collection w @ [v], live := (live w)(v := x)\<rparr>)"

fun run_calls :: "call list \<Rightarrow> TensorFlowState \<Rightarrow> world \<Rightarrow> TensorFlowState \<times> world" where
  "run_calls [] self w = (self, w)"
| "run_calls (c # cs) self w = (let (self1, w1) = run_call c self w in run_calls cs self1 w1)"

section \<open>Example environments\<close>

text \<open>
  A worker of rank 1 running TensorFlow 2 eagerly, with two global variables; and the
  same worker with eager execution switched off, which TensorFlow 2 allows.
\<close>

definition eager_tf2_world :: world where
  "eager_tf2_world =
     \<lparr>IS_TF2 = True, executing_eagerly = True,
      tf_global_collection = [0, 1], tf_default_session = None,
      live = (\<lambda>v. if v = 0 then [1, 2] else if v = 1 then [3] else []),
      rank = 1,
      rank_live = (\<lambda>r v. if v = 0 then [7, 7] else if v = 1 then [9] else []),
      rank_object = (\<lambda>r. [(''epoch'', 5)]),
      trace = []\<rparr>"

definition graph_tf2_world :: world where
  "graph_tf2_world = eager_tf2_world\<lparr>executing_eagerly := False\<rparr>"

definition graph_tf1_world :: world where
  "graph_tf1_world =
     eager_tf2_world\<lparr>IS_TF2 := False, executing_eagerly := False, tf_default_session := Some 4\<rparr>"

definition built_model :: keras_model where
  "built_model =
     \<lparr>has_build = True, built = True, model_weights = [0],
      model_optimizer = Some (Optimizer [1])\<rparr>"

definition unbuilt_model :: keras_model where
  "unbuilt_model = built_model\<lparr>built := False\<rparr>"

definition duck_model :: keras_model where
  "duck_model = built_model\<lparr>has_build := False, built := False\<rparr>"

text \<open>The state the constructor builds for \<open>built_model\<close> under \<open>eager_tf2_world\<close>.\<close>

definition example_keras :: TensorFlowKerasState where
  "example_keras =
     \<lparr>saved_state = [(''epoch'', 3)], attrs = [(''epoch'', 3)],
      model = built_model, optimizer = Some (Optimizer [1]), backend = None,
      saved_model_state = [[1, 2]], saved_optimizer_state = [[3]]\<rparr>"

section \<open>Basic facts about the world and the methods\<close>

lemma write_var_simps:
  "trace (write_var v x w) = trace w"
  "live (write_var v x w) = (live w)(v := x)"
  "IS_TF2 (write_var v x w) = IS_TF2 w"
  "executing_eagerly (write_var v x w) = executing_eagerly w"
  "tf_global_collection (write_var v x w) = tf_global_collection w"
  "tf_default_session (write_var v x w) = tf_default_session w"
  "rank (write_var v x w) = rank w"
  "rank_live (write_var v x w) = rank_live w"
  "rank_object (write_var v x w) = rank_object w"
  by (simp_all add: write_var_def)

lemma write_var_same: "live w v = x \<Longrightarrow> write_var v x w = w"
  by (cases w) (auto simp: write_var_def)

lemma write_all_same:
  "list_all (\<lambda>(v, x). live w v = x) ps \<Longrightarrow> write_all ps w = w"
  by (induction ps arbitrary: w) (auto simp: write_var_same)

lemma write_all_trace: "trace (write_all ps w) = trace w"
  by (induction ps arbitrary: w) (auto simp: write_var_simps)

lemma emit_trace_upd: "emit e w = w\<lparr>trace := trace w @ [e]\<rparr>"
  by (simp add: emit_def)

lemma write_var_trace_upd: "write_var v x (w\<lparr>trace := t\<rparr>) = (write_var v x w)\<lparr>trace := t\<rparr>"
  by (simp add: write_var_def)

lemma write_all_trace_upd: "write_all ps (w\<lparr>trace := t\<rparr>) = (write_all ps w)\<lparr>trace := t\<rparr>"
  by (induction ps arbitrary: w) (auto simp: write_var_trace_upd)

lemma eval_each_eq:
  "eval_each self vs w =
     (map (live w) vs, w\<lparr>trace := trace w @ map (read_event (eval_fn self) (session self)) vs\<rparr>)"
proof (induction vs arbitrary: w)
  case Nil
  show ?case by simp
next
  case (Cons v vs)
  show ?case
    by (cases "eval_fn self")
      (simp_all add: Cons call_eval_fn_def TensorFlowState_to_numpy_def
        TensorFlowState_eval_var_def var_numpy_def var_eval_def emit_def read_event_def)
qed

lemma call_assign_fn_eq:
  "call_assign_fn self v x w =
     (write_var v x w)\<lparr>trace := trace w @ [write_event (assign_fn self) (session self) (v, x)]\<rparr>"
  by (cases "assign_fn self")
    (simp_all add: call_assign_fn_def TensorFlowState_assign_var_def
      TensorFlowState_load_var_def var_assign_def var_load_def write_event_def
      write_var_def emit_def)

lemma assign_each_eq:
  "assign_each self ps w =
     (write_all ps w)\<lparr>trace := trace w @ map (write_event (assign_fn self) (session self)) ps\<rparr>"
proof (induction ps arbitrary: w)
  case Nil
  show ?case by simp
next
  case (Cons p ps)
  obtain v x where p: "p = (v, x)" by (cases p)
  show ?case
    by (simp add: p Cons call_assign_fn_eq write_all_trace_upd write_var_simps)
qed

lemma zip_map_live_same: "list_all (\<lambda>(v, x). live w v = x) (zip vs (map (live w) vs))"
  by (induction vs) auto

lemma write_back_same:
  "live w' = live w \<Longrightarrow> write_all (zip vs (map (live w) vs)) w' = w'"
  using zip_map_live_same [of w' vs] by (simp add: write_all_same)

lemma ObjectState_init_eq:
  "ObjectState_init kw self w =
     (self\<lparr>saved_state := kw, attrs := kw\<rparr>, w\<lparr>trace := trace w @ [EvObjectInit kw]\<rparr>)"
  by (simp add: ObjectState_init_def emit_def)

lemma ObjectState_save_eq:
  "ObjectState_save self w =
     (self\<lparr>saved_state := attrs self\<rparr>, w\<lparr>trace := trace w @ [EvObjectSave]\<rparr>)"
  by (simp add: ObjectState_save_def emit_def)

lemma ObjectState_restore_eq:
  "ObjectState_restore self w =
     (self\<lparr>attrs := saved_state self\<rparr>, w\<lparr>trace := trace w @ [EvObjectRestore]\<rparr>)"
  by (simp add: ObjectState_restore_def emit_def)

lemma ObjectState_sync_eq:
  "ObjectState_sync self w =
     (self\<lparr>saved_state := (if rank w = 0 then saved_state self else rank_object w 0),
            attrs := (if rank w = 0 then saved_state self else rank_object w 0)\<rparr>,
      w\<lparr>trace := trace w @ [EvObjectSync, EvBroadcastObject (saved_state self)]\<rparr>)"
  by (simp add: ObjectState_sync_def hvd_broadcast_object_def emit_def)

lemma TensorFlowState_save_model_eq:
  "TensorFlowState_save_model self w =
     (self\<lparr>saved_values := map (live w) (variables self)\<rparr>,
      w\<lparr>trace := trace w @ map (read_event (eval_fn self) (session self)) (variables self)\<rparr>)"
  by (simp add: TensorFlowState_save_model_def eval_each_eq)

lemma TensorFlowState_load_model_eq:
  "TensorFlowState_load_model self w =
     (self, (write_all (zip (variables self) (saved_values self)) w)
        \<lparr>trace := trace w @ map (write_event (assign_fn self) (session self))
                              (zip (variables self) (saved_values self))\<rparr>)"
  by (simp add: TensorFlowState_load_model_def assign_each_eq)

lemma TensorFlowState_save_eq:
  "TensorFlowState_save self w =
     (self\<lparr>saved_state := attrs self, saved_values := map (live w) (variables self)\<rparr>,
      w\<lparr>trace := trace w @ map (read_event (eval_fn self) (session self)) (variables self)
                 @ [EvObjectSave]\<rparr>)"
  by (simp add: TensorFlowState_save_def TensorFlowState_save_model_eq ObjectState_save_eq)

lemma TensorFlowState_restore_eq:
  "TensorFlowState_restore self w =
     (self\<lparr>attrs := saved_state self\<rparr>,
      (write_all (zip (variables self) (saved_values self)) w)
        \<lparr>trace := trace w @ map (write_event (assign_fn self) (session self))
                              (zip (variables self) (saved_values self))
                 @ [EvObjectRestore]\<rparr>)"
  by (simp add: TensorFlowState_restore_def TensorFlowState_load_model_eq ObjectState_restore_eq)

lemma receive_broadcast_simps:
  "trace (receive_broadcast vs r w) = trace w"
  "rank (receive_broadcast vs r w) = rank w"
  "rank_object (receive_broadcast vs r w) = rank_object w"
  "tf_global_collection (receive_broadcast vs r w) = tf_global_collection w"
  by (simp_all add: receive_broadcast_def)

lemma TensorFlowState_sync_trace:
  "trace (snd (TensorFlowState_sync self w)) =
     trace w @ [EvBroadcastVariables (variables self) 0]
       @ (case session self of
            Some s \<Rightarrow> [EvSessionRun s (BroadcastOp (variables self) 0)]
          | None \<Rightarrow> [])
       @ map (read_event (eval_fn self) (session self)) (variables self)
       @ [EvObjectSync, EvBroadcastObject (saved_state self)]"
  by (simp add: TensorFlowState_sync_def hvd_broadcast_variables_def Let_def
      TensorFlowState_save_model_eq ObjectState_sync_eq receive_broadcast_simps emit_def
      split: option.splits)

lemma events_since_append [simp]:
  "trace w' = trace w @ evs \<Longrightarrow> events_since w w' = evs"
  by (simp add: events_since_def)

section \<open>Construction\<close>

lemma model_built_cases: "model_built m = (\<not> has_build m \<or> built m)"
  by (simp add: model_built_def)

text \<open>
  C3. Constructing a \<open>TensorFlowKerasState\<close> from a model that is not built (it has a
  \<open>build\<close> attribute and its \<open>built\<close> flag is false) raises the construction error
  at once: the result is the \<open>ValueError\<close> and the world is returned as it was received,
  with no live value changed and no external call issued.
\<close>

theorem unbuilt_model_is_refused:
  "has_build m \<Longrightarrow> \<not> built m \<Longrightarrow>
     TensorFlowKerasState_init m opt be kw w = (Inl ValueError_ModelMustBeBuilt, w)"
  by (simp add: TensorFlowKerasState_init_def model_built_def)

theorem unbuilt_model_is_refused_witness:
  "has_build unbuilt_model \<and> \<not> built unbuilt_model \<and>
   TensorFlowKerasState_init unbuilt_model None None [] eager_tf2_world
     = (Inl ValueError_ModelMustBeBuilt, eager_tf2_world)"
proof -
  have h1: "has_build unbuilt_model" by (simp add: unbuilt_model_def built_model_def)
  have h2: "\<not> built unbuilt_model" by (simp add: unbuilt_model_def built_model_def)
  show ?thesis using h1 h2 unbuilt_model_is_refused [OF h1 h2] by simp
qed

lemma Keras_save_model_not_unbuilt:
  "fst (TensorFlowKerasState_save_model self w) \<noteq> Some ValueError_ModelMustBeBuilt"
  by (simp add: TensorFlowKerasState_save_model_def get_weights_def Let_def split_def
      split: option.splits)

lemma init_unbuilt_error_iff:
  "(fst (TensorFlowKerasState_init m opt be kw w) = Inl ValueError_ModelMustBeBuilt)
     = (has_build m \<and> \<not> built m)"
proof (cases "model_built m")
  case False
  then show ?thesis by (simp add: TensorFlowKerasState_init_def model_built_cases)
next
  case True
  let ?self = "\<lparr>saved_state = [], attrs = [], model = m,
                 optimizer = (case opt of Some x \<Rightarrow> Some x | None \<Rightarrow> model_optimizer m),
                 backend = be, saved_model_state = [], saved_optimizer_state = []\<rparr>"
  obtain e s1 w1 where r: "TensorFlowKerasState_save_model ?self w = (e, s1, w1)"
    by (cases "TensorFlowKerasState_save_model ?self w") auto
  have "e \<noteq> Some ValueError_ModelMustBeBuilt"
    using Keras_save_model_not_unbuilt [of ?self w] r by simp
  then show ?thesis using True r
    by (cases e) (auto simp: TensorFlowKerasState_init_def model_built_cases split_def Let_def)
qed

text \<open>
  C10. The unbuilt-model construction error is raised exactly for the models that have
  a \<open>build\<close> attribute and a false \<open>built\<close> flag. A model without a \<open>build\<close>
  attribute is treated as built, whatever its flag, and its construction never raises
  that error.
\<close>

theorem model_without_build_counts_as_built:
  "((fst (TensorFlowKerasState_init m opt be kw w) = Inl ValueError_ModelMustBeBuilt)
      = (has_build m \<and> \<not> built m)) \<and>
   (\<not> has_build m \<longrightarrow>
      model_built m \<and>
      fst (TensorFlowKerasState_init m opt be kw w) \<noteq> Inl ValueError_ModelMustBeBuilt)"
  by (simp add: init_unbuilt_error_iff) (simp add: model_built_def)

theorem model_without_build_counts_as_built_witness:
  "\<not> has_build duck_model \<and> \<not> built duck_model \<and> model_built duck_model \<and>
   fst (TensorFlowKerasState_init duck_model None None [] eager_tf2_world)
     \<noteq> Inl ValueError_ModelMustBeBuilt"
proof -
  have h: "\<not> has_build duck_model" by (simp add: duck_model_def built_model_def)
  have b: "\<not> built duck_model" by (simp add: duck_model_def built_model_def)
  show ?thesis
    using h b model_without_build_counts_as_built [of duck_model None None "[]" eager_tf2_world]
    by simp
qed



section \<open>TensorFlowState: what the constructor fixes\<close>

lemma global_variables_eq: "global_variables w = tf_global_collection w"
  by (simp add: global_variables_def tf_global_variables_def tf_compat_v1_global_variables_def)

lemma default_session_eq:
  "default_session w = (if IS_TF2 w then None else tf_default_session w)"
  by (simp add: default_session_def ops_get_default_session_def)

lemma TensorFlowState_init_eq:
  "TensorFlowState_init vars0 sess0 kw w =
     (\<lparr>saved_state = kw, attrs = kw,
       variables = (case vars0 of Some (v # vs) \<Rightarrow> v # vs | _ \<Rightarrow> global_variables w),
       session = (case sess0 of Some s \<Rightarrow> Some s | None \<Rightarrow> default_session w),
       eval_fn = (if executing_eagerly w then To_numpy else Eval_var),
       assign_fn = (if IS_TF2 w then Assign_var else Load_var),
       saved_values =
         map (live w) (case vars0 of Some (v # vs) \<Rightarrow> v # vs | _ \<Rightarrow> global_variables w)\<rparr>,
      w\<lparr>trace := trace w
         @ map (read_event (if executing_eagerly w then To_numpy else Eval_var)
                  (case sess0 of Some s \<Rightarrow> Some s | None \<Rightarrow> default_session w))
             (case vars0 of Some (v # vs) \<Rightarrow> v # vs | _ \<Rightarrow> global_variables w)
         @ [EvObjectInit kw]\<rparr>)"
  by (simp add: TensorFlowState_init_def TensorFlowState_save_model_eq ObjectState_init_eq
      hvd_executing_eagerly_def Let_def)

lemma TensorFlowState_sync_fields:
  "variables (fst (TensorFlowState_sync self w)) = variables self"
  "session (fst (TensorFlowState_sync self w)) = session self"
  "eval_fn (fst (TensorFlowState_sync self w)) = eval_fn self"
  "assign_fn (fst (TensorFlowState_sync self w)) = assign_fn self"
  by (simp_all add: TensorFlowState_sync_def hvd_broadcast_variables_def Let_def
      TensorFlowState_save_model_eq ObjectState_sync_eq split_def)

lemma run_call_fields:
  "variables (fst (run_call c self w)) = variables self"
  "session (fst (run_call c self w)) = session self"
  "eval_fn (fst (run_call c self w)) = eval_fn self"
  "assign_fn (fst (run_call c self w)) = assign_fn self"
  by (cases c; simp add: TensorFlowState_save_eq TensorFlowState_restore_eq
      TensorFlowState_sync_fields)+

lemma run_calls_fields:
  "variables (fst (run_calls cs self w)) = variables self \<and>
   session (fst (run_calls cs self w)) = session self \<and>
   eval_fn (fst (run_calls cs self w)) = eval_fn self \<and>
   assign_fn (fst (run_calls cs self w)) = assign_fn self"
proof (induction cs arbitrary: self w)
  case Nil
  show ?case by simp
next
  case (Cons c cs)
  obtain s1 w1 where r: "run_call c self w = (s1, w1)" by (cases "run_call c self w")
  have "variables s1 = variables self" "session s1 = session self"
    "eval_fn s1 = eval_fn self" "assign_fn s1 = assign_fn self"
    using run_call_fields [of c self w] r by simp_all
  then show ?case using Cons [of s1 w1] r by simp
qed

lemma read_event_if:
  "read_event (if b then To_numpy else Eval_var) s = (\<lambda>v. if b then EvNumpy v else EvEval v s)"
  by (auto simp: read_event_def)

lemma write_event_if:
  "write_event (if b then Assign_var else Load_var) s =
     (\<lambda>p. if b then EvAssign (fst p) (snd p) else EvLoad (fst p) (snd p) s)"
  by (auto simp: write_event_def)

lemma graph_tf1_init:
  "TensorFlowState_init None None [] graph_tf1_world =
     (\<lparr>saved_state = [], attrs = [], variables = [0, 1], session = Some 4,
       eval_fn = Eval_var, assign_fn = Load_var, saved_values = [[1, 2], [3]]\<rparr>,
      graph_tf1_world\<lparr>trace := [EvEval 0 (Some 4), EvEval 1 (Some 4), EvObjectInit []]\<rparr>)"
  by (simp add: TensorFlowState_init_eq global_variables_eq default_session_eq read_event_def
      graph_tf1_world_def eager_tf2_world_def)

lemma eager_tf2_init:
  "TensorFlowState_init None None [] eager_tf2_world =
     (\<lparr>saved_state = [], attrs = [], variables = [0, 1], session = None,
       eval_fn = To_numpy, assign_fn = Assign_var, saved_values = [[1, 2], [3]]\<rparr>,
      eager_tf2_world\<lparr>trace := [EvNumpy 0, EvNumpy 1, EvObjectInit []]\<rparr>)"
  by (simp add: TensorFlowState_init_eq global_variables_eq default_session_eq read_event_def
      eager_tf2_world_def)

text \<open>
  C7. For a \<open>TensorFlowState\<close>, the read strategy of snapshot capture is fixed by the
  constructor: \<open>numpy()\<close> when \<open>_executing_eagerly()\<close> holds at construction, and
  \<open>eval(session)\<close> against the state's session otherwise. The capture done by the
  constructor reads every tracked variable that way, in order; no later call changes
  the stored strategy; and any later capture, in whatever world it runs, reads each
  tracked variable's current value with the strategy chosen at construction.
\<close>

theorem capture_strategy_fixed_at_construction:
  assumes "TensorFlowState_init vars0 sess0 kw w0 = (self, w1)"
  shows "eval_fn self = (if hvd_executing_eagerly w0 then To_numpy else Eval_var) \<and>
         events_since w0 w1 =
           map (\<lambda>v. if hvd_executing_eagerly w0 then EvNumpy v else EvEval v (session self))
             (variables self) @ [EvObjectInit kw] \<and>
         (\<forall>cs w self2 w2 w3. run_calls cs self w = (self2, w2) \<longrightarrow>
            eval_fn self2 = eval_fn self \<and>
            saved_values (fst (TensorFlowState_save_model self2 w3))
              = map (live w3) (variables self) \<and>
            events_since w3 (snd (TensorFlowState_save_model self2 w3))
              = map (\<lambda>v. if hvd_executing_eagerly w0 then EvNumpy v
                         else EvEval v (session self)) (variables self))"
proof -
  have e: "eval_fn self = (if hvd_executing_eagerly w0 then To_numpy else Eval_var)"
    using assms by (auto simp: TensorFlowState_init_eq hvd_executing_eagerly_def)
  have t: "events_since w0 w1 =
      map (read_event (eval_fn self) (session self)) (variables self) @ [EvObjectInit kw]"
    using assms by (auto simp: TensorFlowState_init_eq)
  have later: "eval_fn self2 = eval_fn self \<and>
      saved_values (fst (TensorFlowState_save_model self2 w3)) = map (live w3) (variables self) \<and>
      events_since w3 (snd (TensorFlowState_save_model self2 w3))
        = map (read_event (eval_fn self) (session self)) (variables self)"
    if "run_calls cs self w = (self2, w2)" for cs w self2 w2 w3
    using run_calls_fields [of cs self w] that
    by (simp add: TensorFlowState_save_model_eq)
  show ?thesis using e t later by (simp add: read_event_if)
qed

theorem capture_strategy_fixed_at_construction_witness:
  "eval_fn (fst (TensorFlowState_init None None [] graph_tf1_world)) = Eval_var \<and>
   events_since eager_tf2_world
     (snd (TensorFlowState_save_model (fst (TensorFlowState_init None None [] graph_tf1_world))
        eager_tf2_world))
     = [EvEval 0 (Some 4), EvEval 1 (Some 4)]"
proof -
  let ?self = "fst (TensorFlowState_init None None [] graph_tf1_world)"
  let ?w1 = "snd (TensorFlowState_init None None [] graph_tf1_world)"
  have i: "TensorFlowState_init None None [] graph_tf1_world = (?self, ?w1)" by simp
  have r: "run_calls [] ?self ?w1 = (?self, ?w1)" by simp
  have g: "\<not> hvd_executing_eagerly graph_tf1_world"
    by (simp add: hvd_executing_eagerly_def graph_tf1_world_def eager_tf2_world_def)
  note t = capture_strategy_fixed_at_construction [OF i]
  note later = t [THEN conjunct2, THEN conjunct2, rule_format, OF r, of eager_tf2_world]
  show ?thesis
    using t [THEN conjunct1] later g by (simp add: graph_tf1_init)
qed

text \<open>
  C4, as stated, fails: under TensorFlow 2 with eager execution switched off the
  constructor selects \<open>assign\<close>, although eager execution is not active.
\<close>

theorem write_strategy_ignores_eager_mode:
  "assign_fn (fst (TensorFlowState_init None (Some 4) [] graph_tf2_world))
     \<noteq> (if hvd_executing_eagerly graph_tf2_world \<and> IS_TF2 graph_tf2_world
         then Assign_var else Load_var)"
  by (simp add: TensorFlowState_init_eq hvd_executing_eagerly_def graph_tf2_world_def
      eager_tf2_world_def)

text \<open>
  C4, amended. The write strategy of \<open>restore()\<close> is selected once, by the constructor,
  from the framework version alone: \<open>assign\<close> when \<open>_IS_TF2\<close>, and \<open>load\<close> routed through
  the state's session otherwise; eager execution is not consulted. No later call changes
  the stored strategy, and \<open>_load_model\<close> applies each (variable, stored value) pair with
  it in whatever world it runs.
\<close>

theorem write_strategy_selected_by_tf_version:
  assumes "TensorFlowState_init vars0 sess0 kw w0 = (self, w1)"
  shows "assign_fn self = (if IS_TF2 w0 then Assign_var else Load_var) \<and>
         (\<forall>cs w self2 w2 w3. run_calls cs self w = (self2, w2) \<longrightarrow>
            assign_fn self2 = assign_fn self \<and>
            events_since w3 (snd (TensorFlowState_load_model self2 w3))
              = map (\<lambda>p. if IS_TF2 w0 then EvAssign (fst p) (snd p)
                         else EvLoad (fst p) (snd p) (session self))
                  (zip (variables self) (saved_values self2)))"
proof -
  have a: "assign_fn self = (if IS_TF2 w0 then Assign_var else Load_var)"
    using assms by (auto simp: TensorFlowState_init_eq)
  have later: "assign_fn self2 = assign_fn self \<and>
      events_since w3 (snd (TensorFlowState_load_model self2 w3))
        = map (write_event (assign_fn self) (session self))
            (zip (variables self) (saved_values self2))"
    if "run_calls cs self w = (self2, w2)" for cs w self2 w2 w3
    using run_calls_fields [of cs self w] that
    by (simp add: TensorFlowState_load_model_eq)
  show ?thesis using a later by (simp add: write_event_if)
qed

theorem write_strategy_selected_by_tf_version_witness:
  "assign_fn (fst (TensorFlowState_init None None [] graph_tf1_world)) = Load_var \<and>
   events_since eager_tf2_world
     (snd (TensorFlowState_load_model (fst (TensorFlowState_init None None [] graph_tf1_world))
        eager_tf2_world))
     = [EvLoad 0 [1, 2] (Some 4), EvLoad 1 [3] (Some 4)]"
proof -
  let ?self = "fst (TensorFlowState_init None None [] graph_tf1_world)"
  let ?w1 = "snd (TensorFlowState_init None None [] graph_tf1_world)"
  have i: "TensorFlowState_init None None [] graph_tf1_world = (?self, ?w1)" by simp
  have r: "run_calls [] ?self ?w1 = (?self, ?w1)" by simp
  have g: "\<not> IS_TF2 graph_tf1_world"
    by (simp add: graph_tf1_world_def eager_tf2_world_def)
  note t = write_strategy_selected_by_tf_version [OF i]
  note later = t [THEN conjunct2, rule_format, OF r, of eager_tf2_world]
  show ?thesis
    using t [THEN conjunct1] later g by (simp add: graph_tf1_init)
qed

section \<open>TensorFlowState: synchronisation\<close>


lemma receive_broadcast_trace_upd:
  "receive_broadcast vs r (w\<lparr>trace := t\<rparr>) = (receive_broadcast vs r w)\<lparr>trace := t\<rparr>"
  by (simp add: receive_broadcast_def cong: if_cong)




section \<open>TensorFlowState: the tracked set\<close>

lemma event_vars_read_event: "event_vars (read_event m s v) = [v]"
  by (cases m) (simp_all add: read_event_def)

lemma event_vars_write_event: "event_vars (write_event m s p) = [fst p]"
  by (cases m) (simp_all add: write_event_def)

lemma run_call_events:
  "\<exists>evs. trace (snd (run_call c self w)) = trace w @ evs \<and>
         list_all (\<lambda>e. set (event_vars e) \<subseteq> set (variables self)) evs"
proof (cases c)
  case CallSave
  then show ?thesis
    by (simp add: TensorFlowState_save_eq list_all_iff event_vars_read_event)
next
  case CallRestore
  then show ?thesis
    by (auto simp: TensorFlowState_restore_eq write_all_trace list_all_iff
        event_vars_write_event dest: set_zip_leftD)
next
  case CallSync
  then show ?thesis
    by (auto simp: TensorFlowState_sync_trace list_all_iff event_vars_read_event
        split: option.splits)
next
  case (CreateVariable v x)
  then show ?thesis by simp
qed

lemma run_calls_events:
  "\<exists>evs. trace (snd (run_calls cs self w)) = trace w @ evs \<and>
         list_all (\<lambda>e. set (event_vars e) \<subseteq> set (variables self)) evs"
proof (induction cs arbitrary: self w)
  case Nil
  show ?case by simp
next
  case (Cons c cs)
  obtain s1 w1 where r: "run_call c self w = (s1, w1)" by (cases "run_call c self w")
  have v: "variables s1 = variables self" using run_call_fields(1) [of c self w] r by simp
  obtain evs1 where e1: "trace w1 = trace w @ evs1"
      "list_all (\<lambda>e. set (event_vars e) \<subseteq> set (variables self)) evs1"
    using run_call_events [of c self w] r by auto
  obtain evs2 where e2: "trace (snd (run_calls cs s1 w1)) = trace w1 @ evs2"
      "list_all (\<lambda>e. set (event_vars e) \<subseteq> set (variables self)) evs2"
    using Cons [of s1 w1] v by auto
  have "trace (snd (run_calls (c # cs) self w)) = trace w @ (evs1 @ evs2)"
    using r e1 e2 by simp
  moreover have "list_all (\<lambda>e. set (event_vars e) \<subseteq> set (variables self)) (evs1 @ evs2)"
    using e1 e2 by simp
  ultimately show ?case by blast
qed

lemma untouched_outside:
  "list_all (\<lambda>e. set (event_vars e) \<subseteq> set xs) es \<Longrightarrow> v \<notin> set xs \<Longrightarrow>
     list_all (\<lambda>e. v \<notin> set (event_vars e)) es"
  by (auto simp: list_all_iff)

text \<open>
  C8. When no variable set is passed, the tracked set of a \<open>TensorFlowState\<close> is the
  global variable collection as it was at construction. After any sequence of
  \<open>save()\<close>, \<open>restore()\<close> and \<open>sync()\<close> calls, interleaved with the creation of new
  global variables, the tracked set is still that collection, and no call issued since
  construction names a variable outside it.
\<close>

theorem tracked_set_frozen_at_construction:
  assumes "TensorFlowState_init None sess0 kw w0 = (self, w1)"
      and "run_calls cs self w1 = (self', w')"
  shows "variables self = tf_global_collection w0 \<and>
         variables self' = tf_global_collection w0 \<and>
         list_all (\<lambda>e. set (event_vars e) \<subseteq> set (tf_global_collection w0))
           (events_since w0 w')"
proof -
  have v: "variables self = tf_global_collection w0"
    using assms(1) by (auto simp: TensorFlowState_init_eq global_variables_eq)
  have v': "variables self' = variables self"
    using run_calls_fields [of cs self w1] assms(2) by simp
  have t1: "trace w1 = trace w0 @
      (map (read_event (eval_fn self) (session self)) (variables self) @ [EvObjectInit kw])"
    using assms(1) by (auto simp: TensorFlowState_init_eq)
  obtain evs where e: "trace w' = trace w1 @ evs"
      "list_all (\<lambda>e. set (event_vars e) \<subseteq> set (variables self)) evs"
    using run_calls_events [of cs self w1] assms(2) by auto
  have "trace w' = trace w0 @
      ((map (read_event (eval_fn self) (session self)) (variables self) @ [EvObjectInit kw])
        @ evs)"
    using t1 e(1) by simp
  then have "events_since w0 w' =
      (map (read_event (eval_fn self) (session self)) (variables self) @ [EvObjectInit kw]) @ evs"
    by (rule events_since_append)
  then have "list_all (\<lambda>e. set (event_vars e) \<subseteq> set (variables self)) (events_since w0 w')"
    using e(2) by (auto simp: list_all_iff event_vars_read_event)
  then show ?thesis using v v' by simp
qed

theorem tracked_set_frozen_at_construction_witness:
  "variables (fst (run_calls [CreateVariable 5 [4], CallSave, CallSync, CallRestore]
      (fst (TensorFlowState_init None None [] eager_tf2_world))
      (snd (TensorFlowState_init None None [] eager_tf2_world)))) = [0, 1] \<and>
   tf_global_collection (snd (run_call (CreateVariable 5 [4])
      (fst (TensorFlowState_init None None [] eager_tf2_world))
      (snd (TensorFlowState_init None None [] eager_tf2_world)))) = [0, 1, 5] \<and>
   list_all (\<lambda>e. 5 \<notin> set (event_vars e))
     (events_since eager_tf2_world
       (snd (run_calls [CreateVariable 5 [4], CallSave, CallSync, CallRestore]
         (fst (TensorFlowState_init None None [] eager_tf2_world))
         (snd (TensorFlowState_init None None [] eager_tf2_world)))))"
proof -
  let ?self = "fst (TensorFlowState_init None None [] eager_tf2_world)"
  let ?w1 = "snd (TensorFlowState_init None None [] eager_tf2_world)"
  let ?cs = "[CreateVariable 5 [4], CallSave, CallSync, CallRestore]"
  let ?r = "run_calls ?cs ?self ?w1"
  have i: "TensorFlowState_init None None [] eager_tf2_world = (?self, ?w1)" by simp
  have r: "?r = (fst ?r, snd ?r)" by simp
  have g: "tf_global_collection eager_tf2_world = [0, 1]" by (simp add: eager_tf2_world_def)
  note t = tracked_set_frozen_at_construction [OF i r]
  have a: "variables (fst ?r) = [0, 1]" using t g by simp
  have n: "5 \<notin> set (tf_global_collection eager_tf2_world)" by (simp add: g)
  have b: "list_all (\<lambda>e. 5 \<notin> set (event_vars e)) (events_since eager_tf2_world (snd ?r))"
    by (rule untouched_outside [OF t [THEN conjunct2, THEN conjunct2] n])
  have c: "tf_global_collection (snd (run_call (CreateVariable 5 [4]) ?self ?w1)) = [0, 1, 5]"
    by (simp add: eager_tf2_init g)
  show ?thesis using a b c by blast
qed

section \<open>Save, restore and sync of either variant\<close>

lemma get_weights_eq:
  "get_weights vs w = (map (live w) vs, w\<lparr>trace := trace w @ [EvGetWeights vs]\<rparr>)"
  by (simp add: get_weights_def emit_def)

lemma set_weights_eq:
  "set_weights vs xs w =
     (if length vs \<noteq> length xs
      then (Some ValueError_WeightListLength, w\<lparr>trace := trace w @ [EvSetWeights vs xs]\<rparr>)
      else (None, (write_all (zip vs xs) w)\<lparr>trace := trace w @ [EvSetWeights vs xs]\<rparr>))"
  by (simp add: set_weights_def Let_def emit_trace_upd write_all_trace_upd)

lemma Keras_save_model_eq:
  "TensorFlowKerasState_save_model self w =
     (case optimizer self of
        None \<Rightarrow>
          (Some AttributeError_NoneType,
           self\<lparr>saved_model_state := map (live w) (model_weights (model self))\<rparr>,
           w\<lparr>trace := trace w @ [EvGetWeights (model_weights (model self))]\<rparr>)
      | Some opt \<Rightarrow>
          (None,
           self\<lparr>saved_model_state := map (live w) (model_weights (model self)),
                saved_optimizer_state := map (live w) (optimizer_weights opt)\<rparr>,
           w\<lparr>trace := trace w @ [EvGetWeights (model_weights (model self)),
                                  EvGetWeights (optimizer_weights opt)]\<rparr>))"
  by (simp add: TensorFlowKerasState_save_model_def get_weights_eq Let_def split: option.splits)

lemma Keras_load_model_eq:
  "TensorFlowKerasState_load_model self w =
     (if length (model_weights (model self)) \<noteq> length (saved_model_state self)
      then (Some ValueError_WeightListLength, self,
            w\<lparr>trace := trace w
               @ [EvSetWeights (model_weights (model self)) (saved_model_state self)]\<rparr>)
      else case optimizer self of
        None \<Rightarrow>
          (Some AttributeError_NoneType, self,
           (write_all (zip (model_weights (model self)) (saved_model_state self)) w)
             \<lparr>trace := trace w
                @ [EvSetWeights (model_weights (model self)) (saved_model_state self)]\<rparr>)
      | Some opt \<Rightarrow>
          if length (optimizer_weights opt) \<noteq> length (saved_optimizer_state self)
          then (Some ValueError_WeightListLength, self,
                (write_all (zip (model_weights (model self)) (saved_model_state self)) w)
                  \<lparr>trace := trace w
                     @ [EvSetWeights (model_weights (model self)) (saved_model_state self),
                        EvSetWeights (optimizer_weights opt) (saved_optimizer_state self)]\<rparr>)
          else (None, self,
                (write_all (zip (optimizer_weights opt) (saved_optimizer_state self))
                   (write_all (zip (model_weights (model self)) (saved_model_state self)) w))
                  \<lparr>trace := trace w
                     @ [EvSetWeights (model_weights (model self)) (saved_model_state self),
                        EvSetWeights (optimizer_weights opt) (saved_optimizer_state self)]\<rparr>))"
  by (simp add: TensorFlowKerasState_load_model_def set_weights_eq write_all_trace_upd
      write_all_trace split: option.splits)

lemma Keras_save_eq:
  "TensorFlowKerasState_save self w =
     (case optimizer self of
        None \<Rightarrow>
          (Some AttributeError_NoneType,
           self\<lparr>saved_model_state := map (live w) (model_weights (model self))\<rparr>,
           w\<lparr>trace := trace w @ [EvGetWeights (model_weights (model self))]\<rparr>)
      | Some opt \<Rightarrow>
          (None,
           self\<lparr>saved_state := attrs self,
                saved_model_state := map (live w) (model_weights (model self)),
                saved_optimizer_state := map (live w) (optimizer_weights opt)\<rparr>,
           w\<lparr>trace := trace w @ [EvGetWeights (model_weights (model self)),
                                  EvGetWeights (optimizer_weights opt), EvObjectSave]\<rparr>))"
  by (simp add: TensorFlowKerasState_save_def Keras_save_model_eq ObjectState_save_eq
      split: option.splits)

lemma Keras_restore_fresh:
  assumes "optimizer self = Some opt"
      and "saved_model_state self = map (live w) (model_weights (model self))"
      and "saved_optimizer_state self = map (live w) (optimizer_weights opt)"
  shows "TensorFlowKerasState_restore self w =
     (None, self\<lparr>attrs := saved_state self\<rparr>,
      w\<lparr>trace := trace w
         @ [EvSetWeights (model_weights (model self)) (saved_model_state self),
            EvSetWeights (optimizer_weights opt) (saved_optimizer_state self),
            EvObjectRestore]\<rparr>)"
  using assms
  by (simp add: TensorFlowKerasState_restore_def Keras_load_model_eq ObjectState_restore_eq
      write_back_same)

lemma Raw_restore_fresh:
  assumes "saved_values self = map (live w) (variables self)"
  shows "TensorFlowState_restore self w =
     (self\<lparr>attrs := saved_state self\<rparr>,
      w\<lparr>trace := trace w
         @ map (write_event (assign_fn self) (session self))
             (zip (variables self) (saved_values self))
         @ [EvObjectRestore]\<rparr>)"
  using assms by (simp add: TensorFlowState_restore_eq write_back_same)

lemma written_write_event: "written (write_event m s p) = [p]"
  by (cases m) (simp_all add: write_event_def)

lemma concat_written_write_events:
  "concat (map (written \<circ> write_event m s) ps) = ps"
  by (induction ps) (simp_all add: written_write_event)

lemma restore_of_fresh_snapshot:
  assumes "case st of
             Keras self \<Rightarrow>
               optimizer self \<noteq> None \<and>
               saved_model_state self = map (live w) (model_weights (model self)) \<and>
               saved_optimizer_state self
                 = map (live w) (optimizer_weights (the (optimizer self)))
           | Raw self \<Rightarrow> saved_values self = map (live w) (variables self)"
  shows "\<exists>st2 w2. State_restore st w = (None, st2, w2) \<and> live w2 = live w \<and>
           concat (map written (events_since w w2)) = zip (tracked st) (snapshot st)"
proof (cases st)
  case (Keras self)
  then obtain opt where o: "optimizer self = Some opt"
      and m: "saved_model_state self = map (live w) (model_weights (model self))"
      and p: "saved_optimizer_state self = map (live w) (optimizer_weights opt)"
    using assms by auto
  show ?thesis
    using Keras o m p by (simp add: Keras_restore_fresh [OF o m p])
next
  case (Raw self)
  then have f: "saved_values self = map (live w) (variables self)" using assms by simp
  show ?thesis
    using Raw f by (simp add: Raw_restore_fresh [OF f] concat_written_write_events)
qed

lemma example_keras_init:
  "TensorFlowKerasState_init built_model None None [(''epoch'', 3)] eager_tf2_world =
     (Inr example_keras,
      eager_tf2_world\<lparr>trace := [EvGetWeights [0], EvGetWeights [1],
                                  EvObjectInit [(''epoch'', 3)]]\<rparr>)"
  by (simp add: TensorFlowKerasState_init_def model_built_def Keras_save_model_eq
      ObjectState_init_eq built_model_def example_keras_def eager_tf2_world_def)

text \<open>
  C1. For a state of either variant, if \<open>save()\<close> returns, the snapshot it stored holds
  the live values the tracked value holders had when it was called; an immediately
  following \<open>restore()\<close> returns as well, writes exactly the pairs of tracked holder and
  snapshot value, in order, and leaves every live value as it was before \<open>save()\<close>.
\<close>

theorem save_then_restore_roundtrip:
  assumes "State_save st w = (None, st1, w1)"
  shows "snapshot st1 = map (live w) (tracked st) \<and>
         (\<exists>st2 w2. State_restore st1 w1 = (None, st2, w2) \<and>
            concat (map written (events_since w1 w2)) = zip (tracked st) (snapshot st1) \<and>
            live w2 = live w)"
proof -
  have "snapshot st1 = map (live w) (tracked st) \<and> tracked st1 = tracked st \<and>
        live w1 = live w \<and>
        (case st1 of
           Keras self \<Rightarrow>
             optimizer self \<noteq> None \<and>
             saved_model_state self = map (live w1) (model_weights (model self)) \<and>
             saved_optimizer_state self
               = map (live w1) (optimizer_weights (the (optimizer self)))
         | Raw self \<Rightarrow> saved_values self = map (live w1) (variables self))"
  proof (cases st)
    case (Keras self)
    then obtain opt where o: "optimizer self = Some opt"
      using assms by (auto simp: Keras_save_eq split: option.splits)
    show ?thesis using assms Keras o by (auto simp: Keras_save_eq)
  next
    case (Raw self)
    show ?thesis using assms Raw by (auto simp: TensorFlowState_save_eq)
  qed
  then have s: "snapshot st1 = map (live w) (tracked st)"
    and t: "tracked st1 = tracked st"
    and l: "live w1 = live w"
    and fresh: "case st1 of
           Keras self \<Rightarrow>
             optimizer self \<noteq> None \<and>
             saved_model_state self = map (live w1) (model_weights (model self)) \<and>
             saved_optimizer_state self
               = map (live w1) (optimizer_weights (the (optimizer self)))
         | Raw self \<Rightarrow> saved_values self = map (live w1) (variables self)"
    by blast+
  obtain st2 w2 where r: "State_restore st1 w1 = (None, st2, w2)" "live w2 = live w1"
      "concat (map written (events_since w1 w2)) = zip (tracked st1) (snapshot st1)"
    using restore_of_fresh_snapshot [OF fresh] by blast
  show ?thesis using s t l r by auto
qed

theorem save_then_restore_roundtrip_witness:
  "fst (State_save (Keras example_keras) eager_tf2_world) = None \<and>
   snapshot (fst (snd (State_save (Keras example_keras) eager_tf2_world))) = [[1, 2], [3]] \<and>
   fst (State_restore (fst (snd (State_save (Keras example_keras) eager_tf2_world)))
          (snd (snd (State_save (Keras example_keras) eager_tf2_world)))) = None \<and>
   live (snd (snd (State_restore (fst (snd (State_save (Keras example_keras) eager_tf2_world)))
          (snd (snd (State_save (Keras example_keras) eager_tf2_world))))))
     = live eager_tf2_world"
proof -
  let ?r = "State_save (Keras example_keras) eager_tf2_world"
  have f: "fst ?r = None"
    by (simp add: split_def Keras_save_eq example_keras_def)
  have s: "?r = (None, fst (snd ?r), snd (snd ?r))"
    using f by (metis prod.collapse)
  have t: "map (live eager_tf2_world) (tracked (Keras example_keras)) = [[1, 2], [3]]"
    by (simp add: example_keras_def built_model_def eager_tf2_world_def)
  show ?thesis
    using save_then_restore_roundtrip [OF s] f t by auto
qed

lemma Keras_sync_ok:
  assumes "TensorFlowKerasState_sync self w = (None, self1, w1)"
  shows "optimizer self \<noteq> None \<and> model self1 = model self \<and> optimizer self1 = optimizer self \<and>
         saved_model_state self1 = map (live w1) (model_weights (model self)) \<and>
         saved_optimizer_state self1
           = map (live w1) (optimizer_weights (the (optimizer self)))"
proof -
  obtain e wb where b: "broadcast_model (model self) (optimizer self) (backend self) w = (e, wb)"
    by (cases "broadcast_model (model self) (optimizer self) (backend self) w")
  have e: "e = None"
    using assms b by (cases e) (simp_all add: TensorFlowKerasState_sync_def)
  obtain opt where o: "optimizer self = Some opt"
    using assms b e
    by (cases "optimizer self")
      (simp_all add: TensorFlowKerasState_sync_def Keras_save_model_eq)
  show ?thesis
    using assms b e o
    by (auto simp: TensorFlowKerasState_sync_def Keras_save_model_eq ObjectState_sync_eq)
qed

lemma Raw_sync_ok:
  assumes "TensorFlowState_sync self w = (self1, w1)"
  shows "variables self1 = variables self \<and>
         saved_values self1 = map (live w1) (variables self)"
proof -
  have "saved_values (fst (TensorFlowState_sync self w))
          = map (live (snd (TensorFlowState_sync self w))) (variables self)"
    by (simp add: TensorFlowState_sync_def hvd_broadcast_variables_def Let_def
        TensorFlowState_save_model_eq ObjectState_sync_eq split: option.splits)
  then show ?thesis using assms TensorFlowState_sync_fields(1) [of self w] by simp
qed

text \<open>
  C2. For a state of either variant, if \<open>sync()\<close> returns, the snapshot it leaves holds
  the live values of the tracked holders after the broadcast; a following \<open>restore()\<close>,
  with no \<open>save()\<close> in between, returns, writes exactly that snapshot, and leaves every
  live value unchanged.
\<close>

theorem sync_commits_baseline:
  assumes "State_sync st w = (None, st1, w1)"
  shows "tracked st1 = tracked st \<and>
         snapshot st1 = map (live w1) (tracked st) \<and>
         (\<exists>st2 w2. State_restore st1 w1 = (None, st2, w2) \<and>
            concat (map written (events_since w1 w2)) = zip (tracked st) (snapshot st1) \<and>
            live w2 = live w1)"
proof -
  have "tracked st1 = tracked st \<and> snapshot st1 = map (live w1) (tracked st) \<and>
        (case st1 of
           Keras self \<Rightarrow>
             optimizer self \<noteq> None \<and>
             saved_model_state self = map (live w1) (model_weights (model self)) \<and>
             saved_optimizer_state self
               = map (live w1) (optimizer_weights (the (optimizer self)))
         | Raw self \<Rightarrow> saved_values self = map (live w1) (variables self))"
  proof (cases st)
    case (Keras self)
    obtain e self1 w1' where s0: "TensorFlowKerasState_sync self w = (e, self1, w1')"
      by (cases "TensorFlowKerasState_sync self w")
    have s: "TensorFlowKerasState_sync self w = (None, self1, w1)" and st1: "st1 = Keras self1"
      using assms Keras s0 by simp_all
    show ?thesis using Keras_sync_ok [OF s] Keras st1 by auto
  next
    case (Raw self)
    obtain self1 w1' where s0: "TensorFlowState_sync self w = (self1, w1')"
      by (cases "TensorFlowState_sync self w")
    have s: "TensorFlowState_sync self w = (self1, w1)" and st1: "st1 = Raw self1"
      using assms Raw s0 by simp_all
    show ?thesis using Raw_sync_ok [OF s] Raw st1 by auto
  qed
  then have t: "tracked st1 = tracked st"
    and s: "snapshot st1 = map (live w1) (tracked st)"
    and fresh: "case st1 of
           Keras self \<Rightarrow>
             optimizer self \<noteq> None \<and>
             saved_model_state self = map (live w1) (model_weights (model self)) \<and>
             saved_optimizer_state self
               = map (live w1) (optimizer_weights (the (optimizer self)))
         | Raw self \<Rightarrow> saved_values self = map (live w1) (variables self)"
    by blast+
  obtain st2 w2 where r: "State_restore st1 w1 = (None, st2, w2)" "live w2 = live w1"
      "concat (map written (events_since w1 w2)) = zip (tracked st1) (snapshot st1)"
    using restore_of_fresh_snapshot [OF fresh] by blast
  show ?thesis using s t r by auto
qed

theorem sync_commits_baseline_witness:
  "fst (State_sync (Keras example_keras) eager_tf2_world) = None \<and>
   snapshot (fst (snd (State_sync (Keras example_keras) eager_tf2_world))) = [[7, 7], [9]] \<and>
   fst (State_restore (fst (snd (State_sync (Keras example_keras) eager_tf2_world)))
          (snd (snd (State_sync (Keras example_keras) eager_tf2_world)))) = None \<and>
   live (snd (snd (State_restore (fst (snd (State_sync (Keras example_keras) eager_tf2_world)))
          (snd (snd (State_sync (Keras example_keras) eager_tf2_world))))))
     = live (snd (snd (State_sync (Keras example_keras) eager_tf2_world)))"
proof -
  let ?r = "State_sync (Keras example_keras) eager_tf2_world"
  have f: "fst ?r = None"
    by (simp add: split_def TensorFlowKerasState_sync_def broadcast_model_def
        hvd_executing_eagerly_def hvd_broadcast_variables_def Let_def Keras_save_model_eq
        ObjectState_sync_eq emit_trace_upd receive_broadcast_trace_upd
        example_keras_def eager_tf2_world_def)
  have s: "?r = (None, fst (snd ?r), snd (snd ?r))"
    using f by (metis prod.collapse)
  have n: "snapshot (fst (snd ?r)) = [[7, 7], [9]]"
    by (simp add: split_def TensorFlowKerasState_sync_def broadcast_model_def
        hvd_executing_eagerly_def hvd_broadcast_variables_def Let_def Keras_save_model_eq
        ObjectState_sync_eq emit_trace_upd receive_broadcast_trace_upd
        model_variables_def optimizer_variables_def receive_broadcast_def
        example_keras_def built_model_def eager_tf2_world_def)
  show ?thesis
    using sync_commits_baseline [OF s] f n by auto
qed

section \<open>Order of the tensor-state work and the base class\<close>

lemma write_all_append: "write_all (ps @ qs) w = write_all qs (write_all ps w)"
  by (induction ps arbitrary: w) auto

lemma not_base_read_event: "\<not> is_base_event (read_event m s v)"
  by (cases m) (simp_all add: read_event_def)

lemma not_base_write_event: "\<not> is_base_event (write_event m s p)"
  by (cases m) (simp_all add: write_event_def)

lemma events_since_trace_upd: "events_since w (w'\<lparr>trace := trace w @ evs\<rparr>) = evs"
  by (simp add: events_since_def)

lemma tensor_calls_not_base:
  "list_all (\<lambda>x. \<not> is_base_event x) (capture_calls st @ apply_calls st @ broadcast_calls st w)"
  by (cases st)
    (auto simp: list_all_iff not_base_read_event not_base_write_event split: option.splits)

lemma Keras_save_calls:
  "events_since w (snd (snd (TensorFlowKerasState_save self w)))
     = capture_calls (Keras self)
       @ (if fst (TensorFlowKerasState_save self w) = None then [EvObjectSave] else [])"
  by (cases "optimizer self") (simp_all add: Keras_save_eq events_since_trace_upd)

lemma Keras_save_effect:
  "fst (TensorFlowKerasState_save self w) = None \<Longrightarrow>
     snapshot (Keras (fst (snd (TensorFlowKerasState_save self w))))
       = map (live w) (tracked (Keras self))"
  by (cases "optimizer self") (simp_all add: Keras_save_eq)

lemma Keras_restore_calls:
  "events_since w (snd (snd (TensorFlowKerasState_restore self w)))
     = apply_calls (Keras self)
       @ (if fst (TensorFlowKerasState_restore self w) = None then [EvObjectRestore] else [])"
  by (cases "optimizer self")
    (simp_all add: TensorFlowKerasState_restore_def Keras_load_model_eq ObjectState_restore_eq
      events_since_trace_upd)

lemma Keras_restore_effect:
  "fst (TensorFlowKerasState_restore self w) = None \<Longrightarrow>
     live (snd (snd (TensorFlowKerasState_restore self w)))
       = live (write_all (zip (tracked (Keras self)) (snapshot (Keras self))) w)"
  by (cases "optimizer self")
    (simp_all add: TensorFlowKerasState_restore_def Keras_load_model_eq ObjectState_restore_eq
      write_all_append split: if_splits)

lemma Keras_sync_calls:
  "events_since w (snd (snd (TensorFlowKerasState_sync self w)))
     = broadcast_calls (Keras self) w
       @ (if broadcast_returns (Keras self) w then capture_calls (Keras self) else [])
       @ (if fst (TensorFlowKerasState_sync self w) = None
          then [EvObjectSync, EvBroadcastObject (saved_state self)] else [])"
  by (cases "optimizer self"; cases "backend self"; cases "executing_eagerly w")
    (simp_all add: TensorFlowKerasState_sync_def broadcast_model_def hvd_executing_eagerly_def
      hvd_broadcast_variables_def hvd_broadcast_global_variables_def Let_def
      model_variables_def optimizer_variables_def
      Keras_save_model_eq ObjectState_sync_eq emit_trace_upd receive_broadcast_trace_upd
      receive_broadcast_simps events_since_trace_upd)


lemma Raw_sync_calls:
  "events_since w (snd (TensorFlowState_sync self w))
     = broadcast_calls (Raw self) w @ capture_calls (Raw self)
       @ [EvObjectSync, EvBroadcastObject (saved_state self)]"
proof -
  have "trace (snd (TensorFlowState_sync self w)) =
      trace w @ (broadcast_calls (Raw self) w @ capture_calls (Raw self)
        @ [EvObjectSync, EvBroadcastObject (saved_state self)])"
    by (cases "session self") (simp_all add: TensorFlowState_sync_trace)
  then show ?thesis by (rule events_since_append)
qed

text \<open>
  C5. For a state of either variant and each of \<open>save()\<close>, \<open>restore()\<close> and \<open>sync()\<close>,
  the external calls the operation issues are exactly the tensor-state calls of that
  operation (the capture, the restoration, or the broadcast followed by the capture),
  none of which belongs to the base class, followed, when the operation returns, by the
  calls of the shared base class: \<open>ObjectState.save\<close>, \<open>ObjectState.restore\<close>, or
  \<open>ObjectState.sync\<close> with its object broadcast of the registered attributes. When the
  operation returns, the tensor-state work has taken effect: the snapshot holds the
  live values (after the broadcast, for \<open>sync()\<close>), or the live values are those
  written from the snapshot. When the tensor-state work raises, the calls end where it
  raised and the base class is not reached.
\<close>

theorem tensor_work_precedes_base:
  "(State_save st w = (e, st', w') \<longrightarrow>
      events_since w w' = capture_calls st @ (if e = None then [EvObjectSave] else []) \<and>
      (e = None \<longrightarrow> snapshot st' = map (live w) (tracked st))) \<and>
   (State_restore st w = (e, st', w') \<longrightarrow>
      events_since w w' = apply_calls st @ (if e = None then [EvObjectRestore] else []) \<and>
      (e = None \<longrightarrow>
         live w' = live (write_all (zip (tracked st) (snapshot st)) w))) \<and>
   (State_sync st w = (e, st', w') \<longrightarrow>
      events_since w w' =
        broadcast_calls st w
        @ (if broadcast_returns st w then capture_calls st else [])
        @ (if e = None then [EvObjectSync, EvBroadcastObject (registered st)] else []) \<and>
      (e = None \<longrightarrow> snapshot st' = map (live w') (tracked st))) \<and>
   list_all (\<lambda>x. \<not> is_base_event x)
     (capture_calls st @ apply_calls st @ broadcast_calls st w)"
proof (cases st)
  case (Keras self)
  have sv: "State_save st w = (e, st', w') \<longrightarrow>
      events_since w w' = capture_calls st @ (if e = None then [EvObjectSave] else []) \<and>
      (e = None \<longrightarrow> snapshot st' = map (live w) (tracked st))"
    using Keras_save_calls [of w self] Keras_save_effect [of self w] Keras
    by (auto simp: split_def Let_def)
  have rs: "State_restore st w = (e, st', w') \<longrightarrow>
      events_since w w' = apply_calls st @ (if e = None then [EvObjectRestore] else []) \<and>
      (e = None \<longrightarrow> live w' = live (write_all (zip (tracked st) (snapshot st)) w))"
    using Keras_restore_calls [of w self] Keras_restore_effect [of self w] Keras
    by (auto simp: split_def Let_def)
  have sy: "State_sync st w = (e, st', w') \<longrightarrow>
      events_since w w' =
        broadcast_calls st w
        @ (if broadcast_returns st w then capture_calls st else [])
        @ (if e = None then [EvObjectSync, EvBroadcastObject (registered st)] else []) \<and>
      (e = None \<longrightarrow> snapshot st' = map (live w') (tracked st))"
  proof
    assume a: "State_sync st w = (e, st', w')"
    obtain self1 where r: "TensorFlowKerasState_sync self w = (e, self1, w')"
        and st': "st' = Keras self1"
      using a Keras by (cases "TensorFlowKerasState_sync self w") auto
    have ev: "events_since w w' =
        broadcast_calls st w
        @ (if broadcast_returns st w then capture_calls st else [])
        @ (if e = None then [EvObjectSync, EvBroadcastObject (registered st)] else [])"
      using Keras_sync_calls [of w self] r Keras by simp
    have sn: "snapshot st' = map (live w') (tracked st)" if "e = None"
      using Keras_sync_ok [of self w self1 w'] r that Keras st' by auto
    show "events_since w w' =
        broadcast_calls st w
        @ (if broadcast_returns st w then capture_calls st else [])
        @ (if e = None then [EvObjectSync, EvBroadcastObject (registered st)] else []) \<and>
      (e = None \<longrightarrow> snapshot st' = map (live w') (tracked st))"
      using ev sn by blast
  qed
  show ?thesis using sv rs sy tensor_calls_not_base [of st w] by blast
next
  case (Raw self)
  have sv: "State_save st w = (e, st', w') \<longrightarrow>
      events_since w w' = capture_calls st @ (if e = None then [EvObjectSave] else []) \<and>
      (e = None \<longrightarrow> snapshot st' = map (live w) (tracked st))"
    using Raw by (auto simp: TensorFlowState_save_eq events_since_trace_upd)
  have rs: "State_restore st w = (e, st', w') \<longrightarrow>
      events_since w w' = apply_calls st @ (if e = None then [EvObjectRestore] else []) \<and>
      (e = None \<longrightarrow> live w' = live (write_all (zip (tracked st) (snapshot st)) w))"
    using Raw by (auto simp: TensorFlowState_restore_eq events_since_trace_upd)
  have sy: "State_sync st w = (e, st', w') \<longrightarrow>
      events_since w w' =
        broadcast_calls st w
        @ (if broadcast_returns st w then capture_calls st else [])
        @ (if e = None then [EvObjectSync, EvBroadcastObject (registered st)] else []) \<and>
      (e = None \<longrightarrow> snapshot st' = map (live w') (tracked st))"
  proof
    assume a: "State_sync st w = (e, st', w')"
    obtain self1 where r: "TensorFlowState_sync self w = (self1, w')"
        and st': "st' = Raw self1" and e: "e = None"
      using a Raw by (cases "TensorFlowState_sync self w") auto
    have ev: "events_since w w' =
        broadcast_calls st w @ capture_calls st
        @ [EvObjectSync, EvBroadcastObject (registered st)]"
      using Raw_sync_calls [of w self] r Raw by simp
    have sn: "snapshot st' = map (live w') (tracked st)"
      using Raw_sync_ok [OF r] Raw st' by simp
    show "events_since w w' =
        broadcast_calls st w
        @ (if broadcast_returns st w then capture_calls st else [])
        @ (if e = None then [EvObjectSync, EvBroadcastObject (registered st)] else []) \<and>
      (e = None \<longrightarrow> snapshot st' = map (live w') (tracked st))"
      using ev sn e Raw by simp
  qed
  show ?thesis using sv rs sy tensor_calls_not_base [of st w] by blast
qed


theorem tensor_work_precedes_base_witness:
  "events_since graph_tf1_world
     (snd (snd (State_sync (Raw (fst (TensorFlowState_init None None [] graph_tf1_world)))
        graph_tf1_world)))
     = [EvBroadcastVariables [0, 1] 0, EvSessionRun 4 (BroadcastOp [0, 1] 0),
        EvEval 0 (Some 4), EvEval 1 (Some 4), EvObjectSync, EvBroadcastObject []] \<and>
   events_since eager_tf2_world
     (snd (snd (State_restore (Keras example_keras) eager_tf2_world)))
     = [EvSetWeights [0] [[1, 2]], EvSetWeights [1] [[3]], EvObjectRestore]"
proof -
  let ?st = "Raw (fst (TensorFlowState_init None None [] graph_tf1_world))"
  let ?r = "State_sync ?st graph_tf1_world"
  let ?q = "State_restore (Keras example_keras) eager_tf2_world"
  have s: "?r = (None, fst (snd ?r), snd (snd ?r))"
    by (simp add: split_def Let_def)
  have f: "fst ?q = None"
    by (simp add: split_def TensorFlowKerasState_restore_def Keras_load_model_eq
        example_keras_def built_model_def)
  have q: "?q = (None, fst (snd ?q), snd (snd ?q))"
    using f by (metis prod.collapse)
  note t1 = tensor_work_precedes_base
    [of ?st graph_tf1_world None "fst (snd ?r)" "snd (snd ?r)",
      THEN conjunct2, THEN conjunct2, THEN conjunct1, rule_format, OF s, THEN conjunct1]
  note t2 = tensor_work_precedes_base
    [of "Keras example_keras" eager_tf2_world None "fst (snd ?q)" "snd (snd ?q)",
      THEN conjunct2, THEN conjunct1, rule_format, OF q, THEN conjunct1]
  have a: "events_since graph_tf1_world (snd (snd ?r))
     = [EvBroadcastVariables [0, 1] 0, EvSessionRun 4 (BroadcastOp [0, 1] 0),
        EvEval 0 (Some 4), EvEval 1 (Some 4), EvObjectSync, EvBroadcastObject []]"
    using t1 by (simp add: graph_tf1_init read_event_def)
  have b: "events_since eager_tf2_world (snd (snd ?q))
     = [EvSetWeights [0] [[1, 2]], EvSetWeights [1] [[3]], EvObjectRestore]"
    using t2 by (simp add: example_keras_def built_model_def)
  show ?thesis using a b by (rule conjI)
qed

end
